theory Spec2Isabelle
  imports Main "HOL-Library.Word"
begin

section \<open>The ceit sub-allocator (src/ceit/ceit.h, src/ceit/mem.c)\<close>

text \<open>
  The C source manages chunks (\<^verbatim>\<open>Memchunk\<close>) that are carved into named blocks
  (\<^verbatim>\<open>Memory\<close>). Pointers and \<^verbatim>\<open>size_t\<close> are 64-bit words, so every
  addition and subtraction of the source wraps around as it does in C. The null pointer is
  the address 0.
\<close>

type_synonym addr = "64 word"
type_synonym size_t = "64 word"
type_synonym byte = "8 word"

abbreviation (input) NULL :: addr where
  "NULL \<equiv> 0"

text \<open>
  \<^verbatim>\<open>sizeof(Memory)\<close> for the struct of ceit.h on an LP64 target:
  \<^verbatim>\<open>char name[32]\<close> at 0, \<^verbatim>\<open>size_t size\<close> at 32, \<^verbatim>\<open>int is_free\<close> at 40,
  \<^verbatim>\<open>Memory* next\<close> at 48, \<^verbatim>\<open>char data[50]\<close> at 56, padded to a multiple of 8. The
  general theorems below do not unfold this constant.
\<close>

definition sizeof_Memory :: size_t where
  "sizeof_Memory = 112"

subsection \<open>C strings\<close>

text \<open>
  A C string is a list of characters; the end of the list stands for the terminating
  NUL, and a NUL inside the list ends the string there, as it would in memory.
\<close>

abbreviation (input) NUL :: char where
  "NUL \<equiv> CHR 0x00"

text \<open>\<^verbatim>\<open>strncpy(dest, src, n)\<close>: the \<open>n\<close> bytes left in \<open>dest\<close>. The copy stops at the
  terminator of \<open>src\<close> and pads with NUL; when \<open>src\<close> has \<open>n\<close> or more characters
  no terminator is stored.\<close>

fun strncpy :: "string \<Rightarrow> nat \<Rightarrow> string" where
  "strncpy src 0 = []"
| "strncpy [] (Suc n) = replicate (Suc n) NUL"
| "strncpy (c # cs) (Suc n) =
     (if c = NUL then replicate (Suc n) NUL else c # strncpy cs n)"

text \<open>\<^verbatim>\<open>strncmp(a, b, n)\<close>: compares at most \<open>n\<close> characters as unsigned bytes and
  stops after a common NUL.\<close>

fun strncmp :: "string \<Rightarrow> string \<Rightarrow> nat \<Rightarrow> int" where
  "strncmp a b 0 = 0"
| "strncmp a b (Suc n) =
     (let ca = (case a of [] \<Rightarrow> NUL | x # _ \<Rightarrow> x);
          cb = (case b of [] \<Rightarrow> NUL | y # _ \<Rightarrow> y)
      in if ca \<noteq> cb then int (of_char ca) - int (of_char cb)
         else if ca = NUL then 0
         else strncmp (tl a) (tl b) n)"

subsection \<open>Blocks and chunks\<close>

text \<open>
  \<^verbatim>\<open>struct Memory\<close>. The intrusive \<^verbatim>\<open>next\<close> link is the order of the list that holds
  the blocks of a chunk; \<open>m_addr\<close> is the address of the header (the value of the
  \<^verbatim>\<open>Memory*\<close> pointer), from which the source computes the payload pointer and the header
  of a split remainder. \<open>m_is_free\<close> is the \<^verbatim>\<open>int\<close> flag, which the source only sets to
  1 and 0 and only tests for truth.
\<close>

record Memory =
  m_addr :: addr
  m_name :: string
  m_size :: size_t
  m_is_free :: bool

text \<open>\<^verbatim>\<open>struct Memchunk\<close>; \<open>memory_pool\<close> is the list of blocks reached from the head
  pointer, \<open>c_next\<close> the link to the next chunk.\<close>

record Memchunk =
  c_name :: string
  total_size :: size_t
  memory_pool :: "Memory list"
  used_memory :: size_t
  free_memory :: size_t
  c_next :: addr

text \<open>The process state that the chunk lifecycle touches: the global head pointer
  \<^verbatim>\<open>global_memchunk_list\<close>, the live \<^verbatim>\<open>Memchunk\<close> objects by address, and
  \<open>allocated\<close>, the pointers that \<^verbatim>\<open>malloc\<close> has returned and \<^verbatim>\<open>free\<close> has not yet
  taken back.\<close>

record state =
  global_memchunk_list :: addr
  chunk_at :: "addr \<Rightarrow> Memchunk option"
  allocated :: "addr set"

definition initial_state :: state where
  "initial_state =
     \<lparr>global_memchunk_list = NULL, chunk_at = (\<lambda>_. None), allocated = {}\<rparr>"

subsection \<open>\<^verbatim>\<open>memc_init\<close>\<close>

text \<open>
  The two calls of \<^verbatim>\<open>malloc\<close> are the C library's: their answers are the parameters
  \<open>chunk_ptr\<close> (for \<^verbatim>\<open>sizeof(Memchunk)\<close> bytes) and \<open>pool_ptr\<close> (for
  \<^verbatim>\<open>total_size + sizeof(Memory)\<close> bytes). When the second call fails the source returns
  NULL and leaves the half-built chunk allocated. The name bytes of the first block are
  not initialised by the source; the model stores the empty list there (the allocator
  never reads the name of a free block).
\<close>

definition memc_init :: "state \<Rightarrow> addr \<Rightarrow> addr \<Rightarrow> string \<Rightarrow> size_t \<Rightarrow> addr \<times> state" where
  "memc_init st chunk_ptr pool_ptr name tsize =
     (if chunk_ptr = NULL then (NULL, st)
      else
        let new_Memchunk = \<lparr>c_name = (strncpy name 32)[31 := NUL],
                            total_size = tsize,
                            memory_pool = [],
                            used_memory = 0,
                            free_memory = tsize,
                            c_next = NULL\<rparr>
        in if pool_ptr = NULL
           then (NULL, st\<lparr>chunk_at := (chunk_at st)(chunk_ptr \<mapsto> new_Memchunk),
                           allocated := insert chunk_ptr (allocated st)\<rparr>)
           else (chunk_ptr,
                 st\<lparr>chunk_at := (chunk_at st)(chunk_ptr \<mapsto>
                   new_Memchunk\<lparr>memory_pool :=
                     [\<lparr>m_addr = pool_ptr, m_name = [], m_size = tsize,
                       m_is_free = True\<rparr>]\<rparr>),
                    allocated := insert pool_ptr (insert chunk_ptr (allocated st))\<rparr>))"

subsection \<open>\<^verbatim>\<open>memory_alloc\<close>\<close>

text \<open>
  The search loop of \<^verbatim>\<open>memory_alloc\<close>. \<open>i\<close> is the position of \<open>current\<close> in the
  list, \<open>best_fit\<close> the position of the block the pointer \<^verbatim>\<open>best_fit\<close> refers to
  (\<open>None\<close> for NULL), \<open>best_fit_size\<close> the running minimum.
\<close>

fun best_fit_scan ::
  "Memory list \<Rightarrow> size_t \<Rightarrow> nat \<Rightarrow> nat option \<Rightarrow> size_t \<Rightarrow> nat option" where
  "best_fit_scan [] sz i best_fit best_fit_size = best_fit"
| "best_fit_scan (current # rest) sz i best_fit best_fit_size =
     (if m_is_free current \<and> sz \<le> m_size current \<and> m_size current < best_fit_size
      then best_fit_scan rest sz (Suc i) (Some i) (m_size current)
      else best_fit_scan rest sz (Suc i) best_fit best_fit_size)"

text \<open>The search as the source starts it: \<^verbatim>\<open>best_fit = NULL\<close>,
  \<^verbatim>\<open>best_fit_size = (size_t)-1\<close>.\<close>

definition best_fit_search :: "Memory list \<Rightarrow> size_t \<Rightarrow> nat option" where
  "best_fit_search pool sz = best_fit_scan pool sz 0 None (- 1)"

text \<open>
  \<^verbatim>\<open>memory_alloc(Memchunk, size, block_name)\<close> returns the payload pointer (NULL on
  failure) and the chunk as the call leaves it. \<open>None\<close> is a NULL chunk pointer.
  The header of a split remainder is carved out of the payload, so its name bytes are
  whatever the payload held; the model stores the empty list there.
\<close>

definition memory_alloc ::
  "Memchunk option \<Rightarrow> size_t \<Rightarrow> string \<Rightarrow> addr \<times> Memchunk option" where
  "memory_alloc Memchunk sz block_name =
     (case Memchunk of
        None \<Rightarrow> (NULL, None)
      | Some c \<Rightarrow>
          if sz = 0 then (NULL, Some c)
          else
            (case best_fit_search (memory_pool c) sz of
               None \<Rightarrow> (NULL, Some c)
             | Some i \<Rightarrow>
                 let best_fit = memory_pool c ! i;
                     split = (sz + sizeof_Memory < m_size best_fit);
                     new_block = \<lparr>m_addr = m_addr best_fit + sizeof_Memory + sz,
                                  m_name = [],
                                  m_size = m_size best_fit - sz - sizeof_Memory,
                                  m_is_free = True\<rparr>;
                     used_block = best_fit\<lparr>m_name := strncpy block_name 32,
                                           m_size := (if split then sz else m_size best_fit),
                                           m_is_free := False\<rparr>;
                     pool = take i (memory_pool c)
                            @ used_block # (if split then [new_block] else [])
                            @ drop (Suc i) (memory_pool c)
                 in (m_addr best_fit + sizeof_Memory,
                     Some (c\<lparr>memory_pool := pool,
                             used_memory := used_memory c + sz,
                             free_memory := free_memory c - sz\<rparr>))))"

subsection \<open>\<^verbatim>\<open>memory_free\<close>\<close>

text \<open>The first loop of \<^verbatim>\<open>memory_free\<close>: the position of the first block that is in
  use and whose name compares equal over \<^verbatim>\<open>sizeof(current->name)\<close> = 32 bytes.\<close>

fun find_block :: "Memory list \<Rightarrow> string \<Rightarrow> nat option" where
  "find_block [] block_name = None"
| "find_block (current # rest) block_name =
     (if \<not> m_is_free current \<and> strncmp (m_name current) block_name 32 = 0
      then Some 0
      else map_option Suc (find_block rest block_name))"

text \<open>
  The second loop of \<^verbatim>\<open>memory_free\<close>. After a merge the source sets
  \<^verbatim>\<open>current->next = current->next->next\<close> and then, as in every iteration,
  \<^verbatim>\<open>current = current->next\<close>: the scan goes on behind the block that was absorbed.
\<close>

fun coalesce :: "Memory list \<Rightarrow> Memory list" where
  "coalesce [] = []"
| "coalesce [current] = [current]"
| "coalesce (current # nxt # rest) =
     (if m_is_free current \<and> m_is_free nxt
      then current\<lparr>m_size := m_size current + (sizeof_Memory + m_size nxt)\<rparr> # coalesce rest
      else current # coalesce (nxt # rest))"

text \<open>\<^verbatim>\<open>memory_free(Memchunk, block_name)\<close> is \<^verbatim>\<open>void\<close>: all it gives back is the
  chunk, updated in place. \<open>None\<close> is a NULL argument.\<close>

definition memory_free :: "Memchunk option \<Rightarrow> string option \<Rightarrow> Memchunk option" where
  "memory_free Memchunk block_name =
     (case (Memchunk, block_name) of
        (Some c, Some nm) \<Rightarrow>
          let c1 = (case find_block (memory_pool c) nm of
                      None \<Rightarrow> c
                    | Some i \<Rightarrow>
                        let current = memory_pool c ! i
                        in c\<lparr>memory_pool := (memory_pool c)[i := current\<lparr>m_is_free := True\<rparr>],
                             used_memory := used_memory c - m_size current,
                             free_memory := free_memory c + m_size current\<rparr>)
          in Some (c1\<lparr>memory_pool := coalesce (memory_pool c1)\<rparr>)
      | _ \<Rightarrow> Memchunk)"

text \<open>
  The spec's \<open>free\<close> (section 4.5 and the failure kinds of section 7), written from
  the spec's words for comparison with the source: a name that matches no used block is
  answered with \<open>BlockNotFound\<close>.
\<close>

datatype failure =
  OutOfSpace | InvalidArgument | BackingAllocationFailed | BlockNotFound | SizeExceedsBlock

definition free_spec :: "Memchunk \<Rightarrow> string \<Rightarrow> failure + Memchunk" where
  "free_spec c nm =
     (case find_block (memory_pool c) nm of
        None \<Rightarrow> Inl BlockNotFound
      | Some i \<Rightarrow>
          let current = memory_pool c ! i
          in Inr (c\<lparr>memory_pool :=
                      coalesce ((memory_pool c)[i := current\<lparr>m_is_free := True\<rparr>]),
                    used_memory := used_memory c - m_size current,
                    free_memory := free_memory c + m_size current\<rparr>))"

text \<open>What a caller of the \<^verbatim>\<open>void\<close> function has after the call, as a result value:
  the function has no failure return, so a call on a chunk and a name always comes back
  with the chunk.\<close>

definition memory_free_result :: "Memchunk \<Rightarrow> string \<Rightarrow> failure + Memchunk" where
  "memory_free_result c nm =
     (case memory_free (Some c) (Some nm) of
        Some c' \<Rightarrow> Inr c'
      | None \<Rightarrow> Inl InvalidArgument)"

subsection \<open>Sequences of operations on one chunk\<close>

datatype op = Alloc size_t string | Free string

fun step :: "Memchunk option \<Rightarrow> op \<Rightarrow> Memchunk option" where
  "step c (Alloc sz nm) = snd (memory_alloc c sz nm)"
| "step c (Free nm) = memory_free c (Some nm)"

definition run :: "Memchunk option \<Rightarrow> op list \<Rightarrow> Memchunk option" where
  "run c ops = foldl step c ops"

text \<open>The counters of a chunk: \<open>used_memory\<close>, \<open>free_memory\<close>, \<open>total_size\<close>.\<close>

definition counters :: "Memchunk option \<Rightarrow> (size_t \<times> size_t \<times> size_t) option" where
  "counters p = map_option (\<lambda>c. (used_memory c, free_memory c, total_size c)) p"

text \<open>The invariant on the counters as numbers of bytes: the used and the free bytes add
  up to the total.\<close>

definition counters_add_up :: "Memchunk option \<Rightarrow> bool" where
  "counters_add_up p =
     (case p of None \<Rightarrow> False
      | Some c \<Rightarrow> unat (used_memory c) + unat (free_memory c) = unat (total_size c))"

text \<open>The same equation in the arithmetic of \<^verbatim>\<open>size_t\<close>, where the sum wraps around at
  \<open>2 ^ 64\<close>.\<close>

definition counters_balanced :: "Memchunk option \<Rightarrow> bool" where
  "counters_balanced p =
     (case p of None \<Rightarrow> False
      | Some c \<Rightarrow> used_memory c + free_memory c = total_size c)"

subsection \<open>\<^verbatim>\<open>memory_write\<close> and \<^verbatim>\<open>memory_read\<close>\<close>

text \<open>
  Both functions get bare pointers and copy with \<^verbatim>\<open>memcpy\<close>, so they are modelled on
  a flat byte memory. \<open>memcpy m dst src n\<close> is the memory after copying \<open>n\<close> bytes; the
  bytes are read from the memory before the call (C leaves overlapping regions
  undefined). The block headers are kept in the block list above, not in this memory.
\<close>

type_synonym memory = "addr \<Rightarrow> byte"

definition memcpy :: "memory \<Rightarrow> addr \<Rightarrow> addr \<Rightarrow> size_t \<Rightarrow> memory" where
  "memcpy m dst src n = (\<lambda>a. if a - dst < n then m (src + (a - dst)) else m a)"

text \<open>The \<open>n\<close> bytes at \<open>a\<close>.\<close>

definition load :: "memory \<Rightarrow> addr \<Rightarrow> size_t \<Rightarrow> byte list" where
  "load m a n = map (\<lambda>i. m (a + of_nat i)) [0..<unat n]"

text \<open>\<^verbatim>\<open>strlen\<close>: the scan for the terminator. In a memory without a zero byte it
  never returns, which is the value \<open>None\<close>.\<close>

partial_function (option) strlen_from :: "memory \<Rightarrow> addr \<Rightarrow> nat \<Rightarrow> nat option" where
  "strlen_from m s n =
     (if m (s + of_nat n) = 0 then Some n else strlen_from m s (Suc n))"

definition strlen :: "memory \<Rightarrow> addr \<Rightarrow> nat option" where
  "strlen m s = strlen_from m s 0"

text \<open>
  \<^verbatim>\<open>memory_write(mem_block, data, size)\<close> returns the \<^verbatim>\<open>int\<close> status and the memory.
  With \<^verbatim>\<open>size == 0\<close> the source takes \<^verbatim>\<open>strlen(data) + 1\<close> when
  \<^verbatim>\<open>strchr(data, '\0')\<close> is not NULL (the pointer to the terminator), and
  \<^verbatim>\<open>sizeof(data)\<close> = 8 otherwise.
\<close>

definition memory_write ::
  "addr \<Rightarrow> addr \<Rightarrow> size_t \<Rightarrow> memory \<Rightarrow> (int \<times> memory) option" where
  "memory_write mem_block data sz m =
     (if mem_block = NULL \<or> data = NULL then Some (- 1, m)
      else if sz = 0 then
        (case strlen m data of
           None \<Rightarrow> None
         | Some len \<Rightarrow>
             let sz' = (if data + of_nat len \<noteq> NULL then of_nat len + 1 else 8)
             in Some (0, memcpy m mem_block data sz'))
      else Some (0, memcpy m mem_block data sz))"

definition memory_read :: "addr \<Rightarrow> addr \<Rightarrow> size_t \<Rightarrow> memory \<Rightarrow> int \<times> memory" where
  "memory_read mem_block buffer sz m =
     (if mem_block = NULL \<or> buffer = NULL then (- 1, m)
      else (0, memcpy m buffer mem_block sz))"

subsection \<open>The registry: \<^verbatim>\<open>global_memchunk_list\<close> and \<^verbatim>\<open>mem_clr\<close>\<close>

text \<open>A chunk is registered when its address is reached from the global head pointer
  through the \<^verbatim>\<open>next\<close> links.\<close>

inductive registered :: "state \<Rightarrow> addr \<Rightarrow> bool" for st :: state where
  head: "global_memchunk_list st \<noteq> NULL \<Longrightarrow> registered st (global_memchunk_list st)"
| link: "registered st p \<Longrightarrow> chunk_at st p = Some c \<Longrightarrow> c_next c \<noteq> NULL
         \<Longrightarrow> registered st (c_next c)"

text \<open>
  \<^verbatim>\<open>free(p)\<close> is defined for a pointer that \<^verbatim>\<open>malloc\<close> returned and that has not
  been freed since; for any other pointer C gives it no defined behaviour, which is the
  value \<open>None\<close>.
\<close>

definition free_ptr :: "addr set \<Rightarrow> addr \<Rightarrow> addr set option" where
  "free_ptr live p = (if p \<in> live then Some (live - {p}) else None)"

text \<open>
  The inner loop of \<^verbatim>\<open>mem_clr\<close>: \<^verbatim>\<open>free(current_mem)\<close> for every block of the
  chunk's list, in list order. Only the first block of a chunk lies at a pointer that
  \<^verbatim>\<open>malloc\<close> returned; the header of a split remainder lies inside that region.
\<close>

fun free_blocks :: "addr set \<Rightarrow> Memory list \<Rightarrow> addr set option" where
  "free_blocks live [] = Some live"
| "free_blocks live (current_mem # rest) =
     (case free_ptr live (m_addr current_mem) of
        None \<Rightarrow> None
      | Some live' \<Rightarrow> free_blocks live' rest)"

text \<open>
  The outer loop of \<^verbatim>\<open>mem_clr\<close>: for each chunk on the list, the blocks are freed,
  then the chunk itself. A link to a chunk that is no longer live has no defined
  behaviour in C; the model gives no result there.
\<close>

partial_function (option) mem_clr_loop ::
  "(addr \<Rightarrow> Memchunk option) \<Rightarrow> addr set \<Rightarrow> addr
     \<Rightarrow> ((addr \<Rightarrow> Memchunk option) \<times> addr set) option" where
  "mem_clr_loop chunks live current_chunk =
     (if current_chunk = NULL then Some (chunks, live)
      else (case chunks current_chunk of
              None \<Rightarrow> None
            | Some c \<Rightarrow>
                (case free_blocks live (memory_pool c) of
                   None \<Rightarrow> None
                 | Some live1 \<Rightarrow>
                     (case free_ptr live1 current_chunk of
                        None \<Rightarrow> None
                      | Some live2 \<Rightarrow>
                          mem_clr_loop (chunks(current_chunk := None)) live2 (c_next c)))))"

definition mem_clr :: "state \<Rightarrow> state option" where
  "mem_clr st =
     map_option
       (\<lambda>(chunks, live).
          \<lparr>global_memchunk_list = NULL, chunk_at = chunks, allocated = live\<rparr>)
       (mem_clr_loop (chunk_at st) (allocated st) (global_memchunk_list st))"

subsection \<open>Notions used by the statements below\<close>

text \<open>A block that can serve a request of \<open>sz\<close> bytes: free and large enough.\<close>

definition eligible :: "Memory \<Rightarrow> size_t \<Rightarrow> bool" where
  "eligible b sz = (m_is_free b \<and> sz \<le> m_size b)"

text \<open>Physical adjacency: each block's successor in the list starts right behind its
  payload, which is what makes the list order the address order.\<close>

fun contiguous :: "Memory list \<Rightarrow> bool" where
  "contiguous [] = True"
| "contiguous [b] = True"
| "contiguous (b # nxt # rest) =
     (m_addr nxt = m_addr b + sizeof_Memory + m_size b \<and> contiguous (nxt # rest))"

text \<open>Header address, size and flag of every block of a chunk, in list order.\<close>

definition layout :: "Memchunk option \<Rightarrow> (addr \<times> size_t \<times> bool) list" where
  "layout p =
     (case p of None \<Rightarrow> []
      | Some c \<Rightarrow> map (\<lambda>b. (m_addr b, m_size b, m_is_free b)) (memory_pool c))"

text \<open>The chunk that \<^verbatim>\<open>memc_init("C", n)\<close> builds when the pool is allocated at
  address 8192 (see \<open>memc_init_example\<close>).\<close>

definition chunk_of_init :: "size_t \<Rightarrow> Memchunk" where
  "chunk_of_init n =
     \<lparr>c_name = (strncpy ''C'' 32)[31 := NUL], total_size = n,
      memory_pool = [\<lparr>m_addr = 8192, m_name = [], m_size = n, m_is_free = True\<rparr>],
      used_memory = 0, free_memory = n, c_next = NULL\<rparr>"

text \<open>
  The chunk that \<open>chunk_of_init 1024\<close> becomes by allocating 10 bytes each for
  \<^verbatim>\<open>"A"\<close>, \<^verbatim>\<open>"B"\<close>, \<^verbatim>\<open>"C"\<close>, \<^verbatim>\<open>"D"\<close> and then freeing \<^verbatim>\<open>"A"\<close>, \<^verbatim>\<open>"C"\<close>,
  \<^verbatim>\<open>"B"\<close> (see \<open>chunk_fragmented_run\<close>): two adjacent free blocks, the block
  \<^verbatim>\<open>"D"\<close> in use, and the free rest.
\<close>

definition chunk_fragmented :: Memchunk where
  "chunk_fragmented =
     \<lparr>c_name = (strncpy ''C'' 32)[31 := NUL], total_size = 1024,
      memory_pool =
        [\<lparr>m_addr = 8192, m_name = strncpy ''A'' 32, m_size = 132, m_is_free = True\<rparr>,
         \<lparr>m_addr = 8436, m_name = strncpy ''C'' 32, m_size = 10, m_is_free = True\<rparr>,
         \<lparr>m_addr = 8558, m_name = strncpy ''D'' 32, m_size = 10, m_is_free = False\<rparr>,
         \<lparr>m_addr = 8680, m_name = [], m_size = 536, m_is_free = True\<rparr>],
      used_memory = 10, free_memory = 1014, c_next = NULL\<rparr>"

section \<open>Properties\<close>

subsection \<open>Chunk creation\<close>

lemma memc_init_example:
  "memc_init initial_state 4096 8192 ''C'' n =
     (4096, initial_state\<lparr>chunk_at := (chunk_at initial_state)(4096 \<mapsto> chunk_of_init n),
                          allocated := {8192, 4096}\<rparr>)"
  by (simp add: memc_init_def chunk_of_init_def initial_state_def Let_def)

text \<open>
  Claim C5. For every name and every size \<open>n\<close> (in particular every \<open>n > 0\<close>), when both
  backing allocations succeed, \<open>memc_init\<close> returns the chunk pointer, and the chunk
  stored there has a block list of exactly one block, marked free, of size \<open>n\<close>, with
  \<open>used_memory = 0\<close> and \<open>free_memory = n\<close>.
\<close>

theorem memc_init_single_free_block:
  assumes "chunk_ptr \<noteq> NULL" and "pool_ptr \<noteq> NULL"
  shows "\<exists>st' c b. memc_init st chunk_ptr pool_ptr nm n = (chunk_ptr, st')
           \<and> chunk_at st' chunk_ptr = Some c
           \<and> memory_pool c = [b] \<and> m_is_free b \<and> m_size b = n
           \<and> used_memory c = 0 \<and> free_memory c = n \<and> total_size c = n"
  using assms by (simp add: memc_init_def Let_def)

text \<open>Claim C5 at \<^verbatim>\<open>memc_init("C", 1024)\<close>, with malloc answering 4096 and 8192.\<close>

theorem memc_init_single_free_block_witness:
  "\<exists>st' c b. memc_init initial_state 4096 8192 ''C'' 1024 = (4096, st')
           \<and> chunk_at st' 4096 = Some c
           \<and> memory_pool c = [b] \<and> m_is_free b \<and> m_size b = 1024
           \<and> used_memory c = 0 \<and> free_memory c = 1024 \<and> total_size c = 1024"
  using memc_init_single_free_block [of 4096 8192 initial_state "''C''" 1024] by simp

subsection \<open>The counters\<close>

lemma memory_alloc_balanced:
  "counters_balanced c \<Longrightarrow> counters_balanced (snd (memory_alloc c sz nm))"
  by (auto simp: counters_balanced_def memory_alloc_def Let_def split: option.splits)

lemma memory_free_balanced:
  "counters_balanced c \<Longrightarrow> counters_balanced (memory_free c nm)"
  by (auto simp: counters_balanced_def memory_free_def Let_def split: option.splits)

lemma step_balanced: "counters_balanced c \<Longrightarrow> counters_balanced (step c x)"
  by (cases x) (simp_all add: memory_alloc_balanced memory_free_balanced)

lemma run_balanced: "counters_balanced c \<Longrightarrow> counters_balanced (run c ops)"
  unfolding run_def by (induction ops arbitrary: c) (simp_all add: step_balanced)

lemma memc_init_balanced:
  "chunk_ptr \<noteq> NULL \<Longrightarrow> pool_ptr \<noteq> NULL \<Longrightarrow>
   counters_balanced (chunk_at (snd (memc_init st chunk_ptr pool_ptr nm n)) chunk_ptr)"
  by (simp add: memc_init_def Let_def counters_balanced_def)

text \<open>
  In the arithmetic of \<^verbatim>\<open>size_t\<close> the sum of the two counters is kept: start from a
  successful \<open>memc_init\<close> and apply any sequence of \<open>memory_alloc\<close> and
  \<open>memory_free\<close> calls; after every prefix \<open>take k ops\<close> of the sequence
  \<open>used_memory + free_memory = total_size\<close> holds modulo \<open>2 ^ 64\<close>.
\<close>

lemma counters_sum_modular:
  assumes "chunk_ptr \<noteq> NULL" and "pool_ptr \<noteq> NULL"
  shows "counters_balanced
           (run (chunk_at (snd (memc_init st chunk_ptr pool_ptr nm n)) chunk_ptr) (take k ops))"
  using assms by (simp add: run_balanced memc_init_balanced)

text \<open>
  Claim C8, at an input where the source departs from it:
  \<^verbatim>\<open>memc_init("C", 100)\<close>, \<^verbatim>\<open>memory_alloc(c, 10, "A")\<close>, \<^verbatim>\<open>memory_free(c, "A")\<close>.
  The block of 100 bytes is too small to split (100 does not exceed 10 + 112), so it is
  handed out whole; \<open>memory_alloc\<close> adds the requested 10 bytes to \<open>used_memory\<close>
  and the counters are 10, 90, 100. \<open>memory_free\<close> subtracts the size of the block,
  100 bytes: \<open>used_memory\<close> wraps around to \<open>2 ^ 64 - 90\<close>, \<open>free_memory\<close> is 190,
  and as numbers of bytes the two do not add up to the \<open>total_size\<close> of 100.
\<close>

theorem counters_sum_fails_as_byte_counts:
  "chunk_at (snd (memc_init initial_state 4096 8192 ''C'' 100)) 4096 = Some (chunk_of_init 100)
   \<and> layout (run (Some (chunk_of_init 100)) [Alloc 10 ''A'']) = [(8192, 100, False)]
   \<and> counters (run (Some (chunk_of_init 100)) [Alloc 10 ''A'']) = Some (10, 90, 100)
   \<and> counters (run (Some (chunk_of_init 100)) [Alloc 10 ''A'', Free ''A''])
       = Some (18446744073709551526, 190, 100)
   \<and> \<not> counters_add_up (run (Some (chunk_of_init 100)) [Alloc 10 ''A'', Free ''A''])"
proof -
  have init: "chunk_at (snd (memc_init initial_state 4096 8192 ''C'' 100)) 4096
              = Some (chunk_of_init 100)"
    by (simp add: memc_init_example)
  have alloc: "run (Some (chunk_of_init 100)) [Alloc 10 ''A'']
        = Some ((chunk_of_init 100)
             \<lparr>memory_pool :=
                [\<lparr>m_addr = 8192, m_name = strncpy ''A'' 32, m_size = 100, m_is_free = False\<rparr>],
              used_memory := 10, free_memory := 90\<rparr>)"
    by (simp add: run_def memory_alloc_def best_fit_search_def chunk_of_init_def
          sizeof_Memory_def Let_def)
  have free: "run (Some (chunk_of_init 100)) [Alloc 10 ''A'', Free ''A'']
        = Some ((chunk_of_init 100)
             \<lparr>memory_pool :=
                [\<lparr>m_addr = 8192, m_name = strncpy ''A'' 32, m_size = 100, m_is_free = True\<rparr>],
              used_memory := 18446744073709551526, free_memory := 190\<rparr>)"
    by code_simp
  show ?thesis
    unfolding alloc free
    by (simp add: init layout_def counters_def counters_add_up_def chunk_of_init_def)
qed

subsection \<open>Best-fit search\<close>

text \<open>
  What the scan returns from any intermediate state of the loop: either the candidate it
  was started with (no later block is eligible and below the running minimum), or the
  first block of least size among the eligible blocks of the rest of the list.
\<close>

lemma best_fit_scan_cases:
  "(best_fit_scan xs sz k best bsz = best
      \<and> (\<forall>b \<in> set xs. \<not> (eligible b sz \<and> m_size b < bsz)))
   \<or> (\<exists>j < length xs. best_fit_scan xs sz k best bsz = Some (k + j)
        \<and> eligible (xs ! j) sz \<and> m_size (xs ! j) < bsz
        \<and> (\<forall>l < length xs. eligible (xs ! l) sz \<longrightarrow>
              m_size (xs ! j) \<le> m_size (xs ! l)
              \<and> (m_size (xs ! l) = m_size (xs ! j) \<longrightarrow> j \<le> l)))"
proof (induction xs arbitrary: k best bsz)
  case Nil
  then show ?case by simp
next
  case (Cons x xs)
  show ?case
  proof (cases "eligible x sz \<and> m_size x < bsz")
    case True
    then have scan: "best_fit_scan (x # xs) sz k best bsz
                     = best_fit_scan xs sz (Suc k) (Some k) (m_size x)"
      by (simp add: eligible_def)
    from Cons.IH [of "Suc k" "Some k" "m_size x"] show ?thesis
    proof (elim disjE conjE exE)
      assume r: "best_fit_scan xs sz (Suc k) (Some k) (m_size x) = Some k"
        and none: "\<forall>b \<in> set xs. \<not> (eligible b sz \<and> m_size b < m_size x)"
      have "\<forall>l < length (x # xs). eligible ((x # xs) ! l) sz \<longrightarrow>
              m_size ((x # xs) ! 0) \<le> m_size ((x # xs) ! l)
              \<and> (m_size ((x # xs) ! l) = m_size ((x # xs) ! 0) \<longrightarrow> 0 \<le> l)"
        using none by (auto simp: nth_Cons split: nat.splits)
      with True r scan show ?thesis
        by (intro disjI2 exI [of _ 0]) simp
    next
      fix j
      assume j: "j < length xs"
        and r: "best_fit_scan xs sz (Suc k) (Some k) (m_size x) = Some (Suc k + j)"
        and e: "eligible (xs ! j) sz" and lt: "m_size (xs ! j) < m_size x"
        and least: "\<forall>l < length xs. eligible (xs ! l) sz \<longrightarrow>
              m_size (xs ! j) \<le> m_size (xs ! l)
              \<and> (m_size (xs ! l) = m_size (xs ! j) \<longrightarrow> j \<le> l)"
      have "\<forall>l < length (x # xs). eligible ((x # xs) ! l) sz \<longrightarrow>
              m_size ((x # xs) ! Suc j) \<le> m_size ((x # xs) ! l)
              \<and> (m_size ((x # xs) ! l) = m_size ((x # xs) ! Suc j) \<longrightarrow> Suc j \<le> l)"
        using least lt by (auto simp: nth_Cons split: nat.splits)
      moreover have "m_size ((x # xs) ! Suc j) < bsz"
        using lt True by (auto elim: less_trans)
      ultimately show ?thesis
        using j r e scan by (intro disjI2 exI [of _ "Suc j"]) simp
    qed
  next
    case False
    then have scan: "best_fit_scan (x # xs) sz k best bsz
                     = best_fit_scan xs sz (Suc k) best bsz"
      by (auto simp: eligible_def)
    from Cons.IH [of "Suc k" best bsz] show ?thesis
    proof (elim disjE conjE exE)
      assume "best_fit_scan xs sz (Suc k) best bsz = best"
        and "\<forall>b \<in> set xs. \<not> (eligible b sz \<and> m_size b < bsz)"
      with False scan show ?thesis by simp
    next
      fix j
      assume j: "j < length xs"
        and r: "best_fit_scan xs sz (Suc k) best bsz = Some (Suc k + j)"
        and e: "eligible (xs ! j) sz" and lt: "m_size (xs ! j) < bsz"
        and least: "\<forall>l < length xs. eligible (xs ! l) sz \<longrightarrow>
              m_size (xs ! j) \<le> m_size (xs ! l)
              \<and> (m_size (xs ! l) = m_size (xs ! j) \<longrightarrow> j \<le> l)"
      have "\<forall>l < length (x # xs). eligible ((x # xs) ! l) sz \<longrightarrow>
              m_size ((x # xs) ! Suc j) \<le> m_size ((x # xs) ! l)
              \<and> (m_size ((x # xs) ! l) = m_size ((x # xs) ! Suc j) \<longrightarrow> Suc j \<le> l)"
        using least lt False by (auto simp: nth_Cons split: nat.splits)
      then show ?thesis
        using j r e lt scan by (intro disjI2 exI [of _ "Suc j"]) simp
    qed
  qed
qed

text \<open>A block that the search selects is eligible, no eligible block is smaller, and no
  eligible block of the same size comes earlier in the list.\<close>

lemma best_fit_search_Some:
  assumes "best_fit_search pool sz = Some i"
  shows "i < length pool \<and> eligible (pool ! i) sz
         \<and> (\<forall>l < length pool. eligible (pool ! l) sz \<longrightarrow>
              m_size (pool ! i) \<le> m_size (pool ! l)
              \<and> (m_size (pool ! l) = m_size (pool ! i) \<longrightarrow> i \<le> l))"
  using best_fit_scan_cases [of pool sz 0 None "- 1"] assms
  by (auto simp: best_fit_search_def)

text \<open>The search selects nothing exactly when every eligible block has the size
  \<^verbatim>\<open>(size_t)-1\<close>, the value \<^verbatim>\<open>best_fit_size\<close> starts from.\<close>

lemma best_fit_search_None:
  "best_fit_search pool sz = None \<longleftrightarrow>
     (\<forall>b \<in> set pool. \<not> (eligible b sz \<and> m_size b \<noteq> - 1))"
proof -
  have lt: "\<And>w :: size_t. (w < - 1) = (w \<noteq> - 1)"
    by (simp add: word_order.not_eq_extremum)
  show ?thesis
    using best_fit_scan_cases [of pool sz 0 None "- 1"]
    by (auto simp: best_fit_search_def lt)
qed

text \<open>
  Claim C1, at the input where the source departs from it:
  \<^verbatim>\<open>memc_init("C", SIZE_MAX)\<close> and then \<^verbatim>\<open>memory_alloc(chunk, 1, "A")\<close>. The only
  block is free and has size \<open>2 ^ 64 - 1\<close>, so it is the smallest free block that is
  large enough; the scan demands \<^verbatim>\<open>current->size < best_fit_size\<close> with
  \<^verbatim>\<open>best_fit_size\<close> started at \<^verbatim>\<open>(size_t)-1\<close>, passes the block over, and
  \<open>memory_alloc\<close> returns NULL with the chunk unchanged.
\<close>

theorem alloc_skips_block_of_max_size:
  "chunk_at (snd (memc_init initial_state 4096 8192 ''C'' (- 1))) 4096
     = Some (chunk_of_init (- 1))
   \<and> map (\<lambda>b. eligible b 1) (memory_pool (chunk_of_init (- 1))) = [True]
   \<and> memory_alloc (Some (chunk_of_init (- 1))) 1 ''A'' = (NULL, Some (chunk_of_init (- 1)))"
  by (simp add: memc_init_example)
     (simp add: chunk_of_init_def eligible_def memory_alloc_def best_fit_search_def)

subsection \<open>Splitting\<close>

lemma contiguous_append:
  "contiguous (xs @ y # ys) \<longleftrightarrow>
     contiguous xs \<and> contiguous (y # ys)
     \<and> (xs \<noteq> [] \<longrightarrow> m_addr y = m_addr (last xs) + sizeof_Memory + m_size (last xs))"
  by (induction xs rule: contiguous.induct) auto

lemma contiguous_head:
  "contiguous (b # ys) \<longleftrightarrow>
     contiguous ys \<and> (ys \<noteq> [] \<longrightarrow> m_addr (hd ys) = m_addr b + sizeof_Memory + m_size b)"
  by (cases ys) auto

text \<open>Replacing block \<open>i\<close> by a block \<open>u\<close> at the same address, shrunk to \<open>sz\<close> and
  followed by a remainder header right behind its payload, keeps the blocks adjacent; so
  does replacing it by a block of the same address and size.\<close>

lemma contiguous_alloc:
  assumes "contiguous pool" and "i < length pool"
    and "m_addr u = m_addr (pool ! i)"
  shows "contiguous (take i pool
           @ u\<lparr>m_size := sz\<rparr>
           # [\<lparr>m_addr = m_addr (pool ! i) + sizeof_Memory + sz, m_name = nm',
               m_size = m_size (pool ! i) - sz - sizeof_Memory, m_is_free = fr\<rparr>]
           @ drop (Suc i) pool)"
    and "m_size u = m_size (pool ! i) \<Longrightarrow> contiguous (take i pool @ u # [] @ drop (Suc i) pool)"
proof -
  have "contiguous (take i pool @ pool ! i # drop (Suc i) pool)"
    using assms(1,2) by (simp add: id_take_nth_drop [symmetric])
  then have parts: "contiguous (take i pool)" "contiguous (pool ! i # drop (Suc i) pool)"
    "take i pool \<noteq> [] \<longrightarrow>
       m_addr (pool ! i) = m_addr (last (take i pool)) + sizeof_Memory + m_size (last (take i pool))"
    by (simp_all add: contiguous_append)
  from parts(2) have behind: "contiguous (drop (Suc i) pool)"
    "drop (Suc i) pool \<noteq> [] \<longrightarrow>
       m_addr (hd (drop (Suc i) pool)) = m_addr (pool ! i) + sizeof_Memory + m_size (pool ! i)"
    by (simp_all add: contiguous_head)
  show "contiguous (take i pool
           @ u\<lparr>m_size := sz\<rparr>
           # [\<lparr>m_addr = m_addr (pool ! i) + sizeof_Memory + sz, m_name = nm',
               m_size = m_size (pool ! i) - sz - sizeof_Memory, m_is_free = fr\<rparr>]
           @ drop (Suc i) pool)"
    using parts(1,3) behind assms(3)
    by (simp add: contiguous_append contiguous_head)
  show "contiguous (take i pool @ u # [] @ drop (Suc i) pool)" if "m_size u = m_size (pool ! i)"
    using parts(1,3) behind assms(3) that
    by (simp add: contiguous_append contiguous_head)
qed

text \<open>
  Claim C6. Let a request of \<open>sz > 0\<close> bytes select the block \<open>b\<close> at position \<open>i\<close>.
  If the size of \<open>b\<close> strictly exceeds \<open>sz + sizeof(Memory)\<close> (the sum as the
  source computes it), the new block list is the old one with \<open>b\<close> replaced by two
  blocks: \<open>b\<close> itself, in use, renamed and shrunk to exactly \<open>sz\<close>, and right after it
  a new free block for the remainder, whose header lies directly behind the \<open>sz\<close>
  payload bytes and whose size is what is left after that header. Otherwise the list
  keeps its length and \<open>b\<close> is handed out whole, with its size unchanged. In both
  cases the blocks before and after position \<open>i\<close> are untouched, the payload pointer is
  returned, the counters move by \<open>sz\<close>, and a list of physically adjacent blocks
  stays one.
\<close>

theorem alloc_split_rule:
  assumes "sz \<noteq> 0" and "best_fit_search (memory_pool c) sz = Some i"
  shows "let pool = memory_pool c;
             b = pool ! i;
             used = b\<lparr>m_name := strncpy nm 32, m_is_free := False\<rparr>;
             remainder = \<lparr>m_addr = m_addr b + sizeof_Memory + sz, m_name = [],
                          m_size = m_size b - sz - sizeof_Memory, m_is_free = True\<rparr>;
             pool' = (if sz + sizeof_Memory < m_size b
                      then take i pool @ [used\<lparr>m_size := sz\<rparr>, remainder] @ drop (Suc i) pool
                      else pool[i := used])
         in i < length pool \<and> m_is_free b \<and> sz \<le> m_size b
            \<and> memory_alloc (Some c) sz nm =
                (m_addr b + sizeof_Memory,
                 Some (c\<lparr>memory_pool := pool',
                         used_memory := used_memory c + sz,
                         free_memory := free_memory c - sz\<rparr>))
            \<and> (contiguous pool \<longrightarrow> contiguous pool')"
proof -
  from best_fit_search_Some [OF assms(2)]
  have i: "i < length (memory_pool c)" and e: "eligible (memory_pool c ! i) sz"
    by simp_all
  have upd: "(memory_pool c)[i := u] = take i (memory_pool c) @ u # drop (Suc i) (memory_pool c)"
    for u
    using i by (simp add: upd_conv_take_nth_drop)
  show ?thesis
    using assms i e
      contiguous_alloc(1) [of "memory_pool c" i
        "(memory_pool c ! i)\<lparr>m_name := strncpy nm 32, m_is_free := False\<rparr>" sz "[]" True]
      contiguous_alloc(2) [of "memory_pool c" i
        "(memory_pool c ! i)\<lparr>m_name := strncpy nm 32, m_is_free := False\<rparr>"]
    by (simp add: memory_alloc_def Let_def upd eligible_def)
qed

text \<open>
  Claim C6 on two chunks. A request of 10 bytes on a fresh chunk of 1024 bytes splits the
  block (1024 exceeds 10 + 112): the used block of 10 bytes at 8192 is followed by a free
  block of 902 bytes at 8314. The same request on a fresh chunk of 100 bytes does not
  split (100 does not exceed 122): the block is handed out with its 100 bytes.
\<close>

theorem alloc_split_rule_witness:
  "best_fit_search (memory_pool (chunk_of_init 1024)) 10 = Some 0
   \<and> contiguous (memory_pool (chunk_of_init 1024))
   \<and> layout (snd (memory_alloc (Some (chunk_of_init 1024)) 10 ''A''))
       = [(8192, 10, False), (8314, 902, True)]
   \<and> contiguous [\<lparr>m_addr = 8192, m_name = strncpy ''A'' 32, m_size = 10, m_is_free = False\<rparr>,
                  \<lparr>m_addr = 8314, m_name = [], m_size = 902, m_is_free = True\<rparr>]
   \<and> best_fit_search (memory_pool (chunk_of_init 100)) 10 = Some 0
   \<and> layout (snd (memory_alloc (Some (chunk_of_init 100)) 10 ''A'')) = [(8192, 100, False)]"
proof -
  have big: "best_fit_search (memory_pool (chunk_of_init 1024)) 10 = Some 0"
    and small: "best_fit_search (memory_pool (chunk_of_init 100)) 10 = Some 0"
    by (simp_all add: chunk_of_init_def best_fit_search_def)
  have nz: "(10 :: size_t) \<noteq> 0"
    by simp
  show ?thesis
    using big small alloc_split_rule [OF nz big, of "''A''"] alloc_split_rule [OF nz small, of "''A''"]
    by (simp add: Let_def layout_def chunk_of_init_def sizeof_Memory_def)
qed

subsection \<open>Freeing by name\<close>

lemma find_block_None:
  "find_block pool nm = None \<longleftrightarrow>
     (\<forall>b \<in> set pool. m_is_free b \<or> strncmp (m_name b) nm 32 \<noteq> 0)"
  by (induction pool) auto

lemma find_block_Some:
  "find_block pool nm = Some i \<Longrightarrow>
     i < length pool \<and> \<not> m_is_free (pool ! i) \<and> strncmp (m_name (pool ! i)) nm 32 = 0"
  by (induction pool arbitrary: i) (auto split: if_splits)

text \<open>
  Claim C3 as the spec words it fails on the source:
  after \<^verbatim>\<open>memc_init("C", 1024)\<close> and \<^verbatim>\<open>memory_alloc(c, 10, "A")\<close>, no used block is
  named \<^verbatim>\<open>"Z"\<close>. The spec's \<open>free\<close> answers \<open>BlockNotFound\<close>; the source's
  \<^verbatim>\<open>memory_free(c, "Z")\<close> returns as every other call does, and the chunk it leaves is
  the chunk it was given.
\<close>

theorem free_unknown_name_counterexample:
  "(case snd (memory_alloc (Some (chunk_of_init 1024)) 10 ''A'') of
      None \<Rightarrow> False
    | Some c \<Rightarrow>
        layout (Some c) = [(8192, 10, False), (8314, 902, True)]
        \<and> free_spec c ''Z'' = Inl BlockNotFound
        \<and> memory_free_result c ''Z'' = Inr c
        \<and> memory_free_result c ''Z'' \<noteq> Inl BlockNotFound)"
  by code_simp

text \<open>
  Claim C3, amended. For every chunk and every name that matches no used block of its
  list, \<open>memory_free\<close> reports nothing: the call returns normally, \<open>used_memory\<close>,
  \<open>free_memory\<close> and \<open>total_size\<close> are unchanged, and the only change to the chunk is
  that the coalescing pass has run over its block list.
\<close>

theorem free_unknown_name:
  assumes "\<forall>b \<in> set (memory_pool c). m_is_free b \<or> strncmp (m_name b) nm 32 \<noteq> 0"
  shows "memory_free_result c nm = Inr (c\<lparr>memory_pool := coalesce (memory_pool c)\<rparr>)"
proof -
  have "find_block (memory_pool c) nm = None"
    using assms by (simp add: find_block_None)
  then show ?thesis
    by (simp add: memory_free_result_def memory_free_def)
qed

text \<open>
  Claim C3, amended, on the chunk left by \<^verbatim>\<open>memc_init("C", 1024)\<close>, four allocations
  of 10 bytes for \<^verbatim>\<open>"A"\<close>, \<^verbatim>\<open>"B"\<close>, \<^verbatim>\<open>"C"\<close>, \<^verbatim>\<open>"D"\<close>, and
  \<^verbatim>\<open>memory_free\<close> of \<^verbatim>\<open>"A"\<close>, \<^verbatim>\<open>"C"\<close>, \<^verbatim>\<open>"B"\<close>. Its list holds two adjacent free
  blocks (132 and 10 bytes), the used block \<^verbatim>\<open>"D"\<close> and the free rest; the counters
  are 10, 1014, 1024. \<^verbatim>\<open>memory_free(c, "Z")\<close> matches no used block (the name of
  \<^verbatim>\<open>"D"\<close> compares unequal). The call returns with the counters as they were, and the
  coalescing pass has merged the two free blocks into one of 132 + 112 + 10 = 254 bytes.
\<close>

theorem free_unknown_name_witness:
  "run (Some (chunk_of_init 1024))
     [Alloc 10 ''A'', Alloc 10 ''B'', Alloc 10 ''C'', Alloc 10 ''D'',
      Free ''A'', Free ''C'', Free ''B''] = Some chunk_fragmented
   \<and> layout (Some chunk_fragmented)
       = [(8192, 132, True), (8436, 10, True), (8558, 10, False), (8680, 536, True)]
   \<and> map (\<lambda>b. strncmp (m_name b) ''Z'' 32 = 0) (memory_pool chunk_fragmented)
       = [False, False, False, False]
   \<and> counters (Some chunk_fragmented) = Some (10, 1014, 1024)
   \<and> (case memory_free_result chunk_fragmented ''Z'' of
         Inl e \<Rightarrow> False
       | Inr c' \<Rightarrow>
           layout (Some c') = [(8192, 254, True), (8558, 10, False), (8680, 536, True)]
           \<and> counters (Some c') = Some (10, 1014, 1024))"
proof -
  have reached: "run (Some (chunk_of_init 1024))
     [Alloc 10 ''A'', Alloc 10 ''B'', Alloc 10 ''C'', Alloc 10 ''D'',
      Free ''A'', Free ''C'', Free ''B''] = Some chunk_fragmented"
    by code_simp
  have names: "map (\<lambda>b. strncmp (m_name b) ''Z'' 32 = 0) (memory_pool chunk_fragmented)
       = [False, False, False, False]"
    by code_simp
  have unknown: "\<forall>b \<in> set (memory_pool chunk_fragmented).
                   m_is_free b \<or> strncmp (m_name b) ''Z'' 32 \<noteq> 0"
    using names by (simp add: chunk_fragmented_def)
  show ?thesis
    using reached names free_unknown_name [OF unknown]
    by (simp add: layout_def counters_def chunk_fragmented_def sizeof_Memory_def)
qed

subsection \<open>Names are compared over 32 bytes\<close>

lemma strncmp_take: "strncmp a b n = strncmp a (take n b) n"
  by (induction a b n rule: strncmp.induct) (auto simp: Let_def split: list.splits)

lemma strncmp_take_left: "strncmp a b n = strncmp (take n a) b n"
  by (induction a b n rule: strncmp.induct) (auto simp: Let_def split: list.splits)

lemma strncpy_take: "strncpy s n = strncpy (take n s) n"
  by (induction s n rule: strncpy.induct) auto

lemma length_strncpy: "length (strncpy s n) = n"
  by (induction s n rule: strncpy.induct) auto

text \<open>A name compares equal to the copy that \<open>memory_alloc\<close> stored.\<close>

lemma strncmp_strncpy: "strncmp (strncpy s n) s n = 0"
  by (induction s n rule: strncpy.induct) (auto simp: Let_def split: list.splits)

lemma find_block_prefix:
  "take 32 n1 = take 32 n2 \<Longrightarrow> find_block pool n1 = find_block pool n2"
  by (induction pool) (simp_all add: strncmp_take [of _ n1] strncmp_take [of _ n2])

lemma find_block_stored_prefix:
  "find_block (map (\<lambda>b. b\<lparr>m_name := take 32 (m_name b)\<rparr>) pool) nm = find_block pool nm"
  by (induction pool) (simp_all add: strncmp_take_left [symmetric])

text \<open>
  Claim C10. Let two names agree on their first 32 bytes. Then in every block list the
  search of \<open>memory_free\<close> finds the same block for either name, \<open>memory_free\<close> leaves
  the same chunk for either name, and \<open>memory_alloc\<close> stores the same name and leaves
  the same chunk for either name. Cutting every stored name down to its first 32 bytes
  does not change which block is found: bytes past position 31, of the stored or of the
  requested name, never matter.
\<close>

theorem free_name_first_32_bytes:
  assumes "take 32 n1 = take 32 n2"
  shows "find_block pool n1 = find_block pool n2
         \<and> memory_free c (Some n1) = memory_free c (Some n2)
         \<and> memory_alloc c sz n1 = memory_alloc c sz n2
         \<and> find_block (map (\<lambda>b. b\<lparr>m_name := take 32 (m_name b)\<rparr>) pool) n1 = find_block pool n1"
proof -
  have stored: "strncpy n1 32 = strncpy n2 32"
    using assms strncpy_take [of n1 32] strncpy_take [of n2 32] by simp
  have found: "find_block xs n1 = find_block xs n2" for xs
    by (rule find_block_prefix [OF assms])
  have "memory_alloc c sz n1 = memory_alloc c sz n2"
    unfolding memory_alloc_def stored by (rule refl)
  moreover have "memory_free c (Some n1) = memory_free c (Some n2)"
    by (cases c) (simp_all add: memory_free_def found)
  ultimately show ?thesis
    using find_block_prefix [OF assms] find_block_stored_prefix by simp
qed

text \<open>
  Claim C10 on two names of 33 characters that differ in the last one only: a block
  allocated under the first is freed under the second.
\<close>

theorem free_name_first_32_bytes_witness:
  "take 32 ''0123456789abcdef0123456789abcdefX'' = take 32 ''0123456789abcdef0123456789abcdefY''
   \<and> layout (run (Some (chunk_of_init 1024))
        [Alloc 10 ''0123456789abcdef0123456789abcdefX'',
         Free ''0123456789abcdef0123456789abcdefX''])
     = layout (run (Some (chunk_of_init 1024))
        [Alloc 10 ''0123456789abcdef0123456789abcdefX'',
         Free ''0123456789abcdef0123456789abcdefY''])
   \<and> layout (run (Some (chunk_of_init 1024))
        [Alloc 10 ''0123456789abcdef0123456789abcdefX'',
         Free ''0123456789abcdef0123456789abcdefY''])
     = [(8192, 1024, True)]"
proof -
  have agree: "take 32 ''0123456789abcdef0123456789abcdefX''
               = take 32 ''0123456789abcdef0123456789abcdefY''"
    by simp
  have freed: "layout (run (Some (chunk_of_init 1024))
        [Alloc 10 ''0123456789abcdef0123456789abcdefX'',
         Free ''0123456789abcdef0123456789abcdefY''])
     = [(8192, 1024, True)]"
    by code_simp
  show ?thesis
    using agree freed
      free_name_first_32_bytes [OF agree,
        of _ "snd (memory_alloc (Some (chunk_of_init 1024)) 10 ''0123456789abcdef0123456789abcdefX'')"]
    by (simp add: run_def)
qed

subsection \<open>Coalescing\<close>

text \<open>When the first two blocks of a list are free, the first absorbs the second's size
  and one header, the second leaves the list, and the scan goes on behind it.\<close>

lemma coalesce_pair:
  "m_is_free a \<Longrightarrow> m_is_free b \<Longrightarrow>
   coalesce (a # b # rest)
     = a\<lparr>m_size := m_size a + (sizeof_Memory + m_size b)\<rparr> # coalesce rest"
  by simp

text \<open>
  Claim C4, at an input where the source departs from it:
  \<^verbatim>\<open>memc_init("C", 1024)\<close>, \<^verbatim>\<open>memory_alloc(c, 10, "A")\<close>,
  \<^verbatim>\<open>memory_alloc(c, 10, "B")\<close>, \<^verbatim>\<open>memory_free(c, "A")\<close>, \<^verbatim>\<open>memory_free(c, "B")\<close>.
  Before the last call the list is A (free, 10), B (used, 10), rest (free, 780). The
  call marks B free, which makes a run of three free blocks. The pass merges B into A
  (10 + 112 + 10 = 132), then moves on to the block behind the absorbed one and ends:
  two adjacent free blocks are left, of 132 and 780 bytes, not one of 1024.
\<close>

theorem coalesce_leaves_adjacent_free_blocks:
  "layout (run (Some (chunk_of_init 1024)) [Alloc 10 ''A'', Alloc 10 ''B'', Free ''A''])
     = [(8192, 10, True), (8314, 10, False), (8436, 780, True)]
   \<and> layout (run (Some (chunk_of_init 1024))
        [Alloc 10 ''A'', Alloc 10 ''B'', Free ''A'', Free ''B''])
     = [(8192, 132, True), (8436, 780, True)]"
  by code_simp

subsection \<open>Writing and reading\<close>

lemma of_nat_less_unat: "i < unat (k :: size_t) \<Longrightarrow> (of_nat i :: size_t) < k"
proof -
  assume "i < unat k"
  moreover have "unat (of_nat i :: size_t) \<le> i"
    by (simp add: unat_of_nat)
  ultimately show ?thesis
    by (simp add: word_less_nat_alt)
qed

text \<open>The \<open>n\<close> bytes at the destination of a copy are the \<open>n\<close> bytes the source held.\<close>

lemma load_memcpy: "load (memcpy m dst src n) dst n = load m src n"
  by (simp add: load_def memcpy_def of_nat_less_unat)

lemma load_zero: "load m a 0 = []"
  by (simp add: load_def)

text \<open>
  Claim C2 as the spec words it fails on the source. After \<^verbatim>\<open>memc_init("C", 1024)\<close>,
  \<^verbatim>\<open>memory_alloc(c, 10, "A")\<close> returns the handle 8304 of a block of 10 bytes, whose
  header is at 8192 and whose successor's header is at 8314. Writing 11 bytes through
  the handle returns 0, not a failure, and the eleventh byte is stored at 8314; reading
  11 bytes returns 0 as well.
\<close>

theorem write_past_block_counterexample:
  "fst (memory_alloc (Some (chunk_of_init 1024)) 10 ''A'') = 8304
   \<and> layout (snd (memory_alloc (Some (chunk_of_init 1024)) 10 ''A''))
       = [(8192, 10, False), (8314, 902, True)]
   \<and> memory_write 8304 4096 11 (\<lambda>a. if a - 4096 < 11 then 120 else 0)
       = Some (0, memcpy (\<lambda>a. if a - 4096 < 11 then 120 else 0) 8304 4096 11)
   \<and> memcpy (\<lambda>a. if a - 4096 < 11 then 120 else 0) 8304 4096 11 8314 = 120
   \<and> fst (memory_read 8304 12288 11 (\<lambda>a. if a - 4096 < 11 then 120 else 0)) = 0"
proof -
  have "memory_alloc (Some (chunk_of_init 1024)) 10 ''A''
        = (8304, Some ((chunk_of_init 1024)
             \<lparr>memory_pool :=
                [\<lparr>m_addr = 8192, m_name = strncpy ''A'' 32, m_size = 10, m_is_free = False\<rparr>,
                 \<lparr>m_addr = 8314, m_name = [], m_size = 902, m_is_free = True\<rparr>],
              used_memory := 10, free_memory := 1014\<rparr>))"
    by (simp add: memory_alloc_def best_fit_search_def chunk_of_init_def sizeof_Memory_def
          Let_def)
  then show ?thesis
    by (simp add: layout_def memory_write_def memory_read_def memcpy_def)
qed

text \<open>
  Claim C2, amended. For every byte count \<open>k > 0\<close>, whatever the size of the block
  behind the handle, \<open>memory_write\<close> and \<open>memory_read\<close> return 0 when the handle and
  the data or buffer pointer are not NULL, and \<open>-1\<close> when one of them is NULL: the
  source compares \<open>k\<close> with nothing.
\<close>

theorem write_read_status:
  assumes "k \<noteq> 0"
  shows "map_option fst (memory_write h p k m) = Some (if h = NULL \<or> p = NULL then - 1 else 0)
         \<and> fst (memory_read h p k m) = (if h = NULL \<or> p = NULL then - 1 else 0)"
  using assms by (simp add: memory_write_def memory_read_def)

text \<open>Claim C2, amended, at the handle 8304 of the 10-byte block above and \<open>k = 11\<close>.\<close>

theorem write_read_status_witness:
  "map_option fst (memory_write 8304 4096 11 (\<lambda>_. 0)) = Some 0
   \<and> fst (memory_read 8304 4096 11 (\<lambda>_. 0)) = 0"
  using write_read_status [of 11 8304 4096 "\<lambda>_. 0"] by simp

text \<open>
  Claim C9. Let the handle \<open>h\<close>, the data pointer \<open>d\<close> and the buffer pointer \<open>b\<close> be
  non-null, and let \<open>k\<close> be any byte count (with \<open>k = 0\<close>, where \<open>memory_write\<close> takes
  the length from the data, let the scan for the terminator return). Then
  \<open>memory_write\<close> returns 0, the following \<open>memory_read\<close> returns 0, and the \<open>k\<close>
  bytes then in the buffer are the \<open>k\<close> bytes that were at \<open>d\<close>. No bound on \<open>k\<close> is
  needed, so this holds in particular for every \<open>k\<close> up to the block's size.
\<close>

theorem write_read_roundtrip:
  assumes "h \<noteq> NULL" and "d \<noteq> NULL" and "b \<noteq> NULL"
    and "k \<noteq> 0 \<or> strlen m d \<noteq> None"
  shows "\<exists>m1 m2. memory_write h d k m = Some (0, m1)
           \<and> memory_read h b k m1 = (0, m2)
           \<and> load m2 b k = load m d k"
proof (cases "k = 0")
  case True
  with assms(4) obtain len where "strlen m d = Some len" by auto
  with True assms(1-3) show ?thesis
    by (simp add: memory_write_def memory_read_def Let_def load_zero)
next
  case False
  with assms(1-3) show ?thesis
    by (simp add: memory_write_def memory_read_def load_memcpy)
qed

text \<open>Claim C9 with the two bytes 72, 105 at address 4096, written through the handle
  8304 and read back into a buffer at 12288.\<close>

theorem write_read_roundtrip_witness:
  "\<exists>m1 m2. memory_write 8304 4096 2 (\<lambda>a. if a = 4096 then 72 else if a = 4097 then 105 else 0)
              = Some (0, m1)
           \<and> memory_read 8304 12288 2 m1 = (0, m2)
           \<and> load m2 12288 2 = [72, 105]"
proof -
  have bytes: "load (\<lambda>a. if a = 4096 then 72 else if a = 4097 then 105 else 0) 4096 2
               = [72, 105]"
    by (simp add: load_def upt_rec)
  show ?thesis
    using write_read_roundtrip [of 8304 4096 12288 2
        "\<lambda>a. if a = 4096 then 72 else if a = 4097 then 105 else 0"]
    by (simp add: bytes)
qed

subsection \<open>The registry\<close>

lemma memc_init_global:
  "global_memchunk_list (snd (memc_init st chunk_ptr pool_ptr nm n)) = global_memchunk_list st"
  by (simp add: memc_init_def Let_def)

lemma not_registered: "global_memchunk_list st = NULL \<Longrightarrow> \<not> registered st p"
proof
  assume "registered st p" and "global_memchunk_list st = NULL"
  then show False by (induction rule: registered.induct) simp_all
qed

lemma mem_clr_empty: "global_memchunk_list st = NULL \<Longrightarrow> mem_clr st = Some st"
  by (subst mem_clr_def, subst mem_clr_loop.simps) simp

text \<open>
  Had the chunk of \<^verbatim>\<open>memc_init("C", 1024)\<close> been put on the list, \<open>mem_clr\<close> would
  free its block and the chunk and leave nothing allocated. Once a block of the chunk has
  been split, the second call of \<^verbatim>\<open>free\<close> gets the header of the remainder, a pointer
  into the region already freed, and the call has no defined result.
\<close>

lemma mem_clr_registered_unsplit:
  "map_option (\<lambda>s. (global_memchunk_list s, chunk_at s 4096, allocated s))
     (mem_clr \<lparr>global_memchunk_list = 4096,
               chunk_at = (\<lambda>_. None)(4096 \<mapsto> chunk_of_init 1024),
               allocated = {8192, 4096}\<rparr>)
   = Some (NULL, None, {})"
  apply (simp add: mem_clr_def)
  apply (subst mem_clr_loop.simps)
  apply (simp add: free_ptr_def chunk_of_init_def)
  apply (subst mem_clr_loop.simps)
  apply simp
  done

lemma mem_clr_registered_split:
  "mem_clr \<lparr>global_memchunk_list = 4096,
            chunk_at = (\<lambda>_. None)
              (4096 := snd (memory_alloc (Some (chunk_of_init 1024)) 10 ''A'')),
            allocated = {8192, 4096}\<rparr>
   = None"
  apply (simp add: mem_clr_def)
  apply (subst mem_clr_loop.simps)
  apply (simp add: free_ptr_def chunk_of_init_def memory_alloc_def best_fit_search_def
           sizeof_Memory_def Let_def)
  done

text \<open>From a state with an empty registry, \<open>memc_init\<close> leads to a state with an empty
  registry: no chunk is registered, and \<open>mem_clr\<close> changes nothing.\<close>

lemma memc_init_registers_nothing:
  assumes "global_memchunk_list st = NULL"
  shows "\<not> registered (snd (memc_init st chunk_ptr pool_ptr nm n)) p"
    and "mem_clr (snd (memc_init st chunk_ptr pool_ptr nm n))
         = Some (snd (memc_init st chunk_ptr pool_ptr nm n))"
  using assms by (simp_all add: not_registered mem_clr_empty memc_init_global)

text \<open>
  Claim C7, at the input of the demonstration program:
  \<^verbatim>\<open>memc_init("joyc", 1024*1024)\<close> in the initial state, with malloc answering 4096
  and 8192. The call succeeds and the chunk is live at 4096, but
  \<^verbatim>\<open>global_memchunk_list\<close> is still NULL, the chunk is not reached from it, and
  \<open>mem_clr\<close> leaves the state as it is: the chunk is not torn down.
\<close>

theorem init_not_registered:
  "(case memc_init initial_state 4096 8192 ''joyc'' 1048576 of
      (p, st) \<Rightarrow> p = 4096 \<and> chunk_at st p \<noteq> None \<and> global_memchunk_list st = NULL
                 \<and> \<not> registered st p \<and> mem_clr st = Some st)"
  by (simp add: memc_init_def Let_def initial_state_def not_registered mem_clr_empty)

end
